theory Spec2Isabelle
  imports Main
begin

section \<open>The stub DNS resolver of sudns01 (\<^verbatim>\<open>src/sudns01/clients/resolver.py\<close>)\<close>

text \<open>
  The theory embeds class \<^verbatim>\<open>ResolverClient\<close>: its constructor and its methods
  \<^verbatim>\<open>get_ip\<close>, \<^verbatim>\<open>get_txt\<close>, \<^verbatim>\<open>get_zone_name\<close> and \<^verbatim>\<open>_check_has_cdname\<close>.
  The class wraps dnspython's stub resolver. dnspython is a library outside the
  repository, so its two entry points (\<^verbatim>\<open>Resolver.resolve\<close>, \<^verbatim>\<open>Resolver.resolve_name\<close>)
  are a parameter of every method here (record \<open>engine\<close>); the data they exchange
  with the class is modelled as far as the class reads it, and so is the one method
  of that data the class calls, \<^verbatim>\<open>HostAnswers.addresses\<close>.

  \<^verbatim>\<open>src/clients/resolver.py\<close> is an older copy of the class that has \<^verbatim>\<open>get_ip\<close> only
  and passes \<^verbatim>\<open>lifetime=RESOLVER_TIMEOUT\<close> with each call; it is not embedded.

  Exceptions are values: a method returns \<open>error + 'a\<close>, \<open>Inl\<close> for a raise. Calls
  of the logger (\<^verbatim>\<open>debug\<close>, \<^verbatim>\<open>info\<close>, \<^verbatim>\<open>warning\<close>, \<^verbatim>\<open>exception\<close>) change no result and
  are left out.
\<close>

subsection \<open>Data of dnspython that the class reads\<close>

text \<open>
  \<^verbatim>\<open>dns.name.Name\<close>: a tuple of labels, leftmost first. A name is absolute when its
  last label is the empty (root) label. \<^verbatim>\<open>parent()\<close> drops the leftmost label and
  raises \<^verbatim>\<open>NoParent\<close> on the root name and on the empty name.
\<close>

type_synonym dns_name = "string list"

datatype rdatatype = A | AAAA | CNAME | DNAME | NS | SOA | TXT

text \<open>The exceptions of \<^verbatim>\<open>dns.resolver\<close> that the class names in an \<^verbatim>\<open>except\<close> clause.\<close>

datatype engine_failure = NXDOMAIN | NoAnswer | NoNameservers | LifetimeTimeout | YXDOMAIN

text \<open>
  One entry of \<^verbatim>\<open>response.question\<close>: the name and type asked for. (dnspython keeps
  it as an rrset without rdata.)
\<close>

record dns_question =
  qname :: dns_name
  qtype :: rdatatype

text \<open>
  An rdata. The class reads \<^verbatim>\<open>.strings\<close> of TXT rdata only; the attribute does not
  exist on the rdata of another type.
\<close>

datatype rdata = TXT_rdata "string list" | Target_rdata dns_name | Opaque_rdata string

text \<open>
  An rrset of a response: owner name, type, and its rdata. An rrset of a parsed
  response holds at least one rdata (the parser makes an rrset when it reads a
  record of it), so the first rdata is kept apart from the others and
  \<^verbatim>\<open>rrset[0]\<close> always exists.
\<close>

record dns_rrset =
  name :: dns_name
  rdtype :: rdatatype
  rdata0 :: rdata
  rdatas :: "rdata list"

record dns_message =
  question :: "dns_question list"
  answer :: "dns_rrset list"
  authority :: "dns_rrset list"

text \<open>
  \<^verbatim>\<open>dns.resolver.Answer\<close>: the response message, and \<^verbatim>\<open>rrset\<close>, the rrset of the
  queried type, \<^verbatim>\<open>None\<close> when the response has none (only possible with
  \<^verbatim>\<open>raise_on_no_answer=False\<close>).
\<close>

record dns_answer =
  response :: dns_message
  rrset :: "dns_rrset option"

text \<open>
  \<^verbatim>\<open>dns.resolver.Resolver\<close>, the attributes the constructor of the class assigns:
  \<^verbatim>\<open>cache\<close> (\<open>None\<close>, or a \<^verbatim>\<open>Cache\<close> given by its cleaning interval),
  \<^verbatim>\<open>retry_servfail\<close> and \<^verbatim>\<open>lifetime\<close>.
\<close>

record dns_resolver =
  cache :: "nat option"
  retry_servfail :: bool
  lifetime :: nat

text \<open>A query is typed \<^verbatim>\<open>dns.name.Name | str\<close> in every method.\<close>

datatype query = QName dns_name | QStr string

datatype family = AF_UNSPEC | AF_INET

text \<open>
  \<^verbatim>\<open>dns.resolver.HostAnswers\<close>, what \<^verbatim>\<open>resolve_name\<close> returns: the answer to the AAAA
  query and the answer to the A query, kept apart under their record types. The
  class reads it through \<^verbatim>\<open>addresses()\<close> only, which reads \<^verbatim>\<open>rdata.address\<close> of every
  rdata. The model keeps these addresses, in text form, for each of the two answers
  in the order of the answer's rrset: \<open>v6\<close> for the AAAA answer, \<open>v4\<close> for the A
  answer (none when the answer is missing or has no rrset).
\<close>

record host_answers =
  v6 :: "string list"
  v4 :: "string list"

text \<open>
  The engine. \<open>resolve r qname rdtype search raise_on_no_answer\<close> is
  \<^verbatim>\<open>r.resolve(...)\<close> (the class always asks in class IN); \<open>resolve_name r name
  family search\<close> is \<^verbatim>\<open>r.resolve_name(...)\<close>.
\<close>

record engine =
  resolve :: "dns_resolver \<Rightarrow> query \<Rightarrow> rdatatype \<Rightarrow> bool \<Rightarrow> bool \<Rightarrow> engine_failure + dns_answer"
  resolve_name :: "dns_resolver \<Rightarrow> query \<Rightarrow> family \<Rightarrow> bool \<Rightarrow> engine_failure + host_answers"

definition is_absolute :: "dns_name \<Rightarrow> bool" where
  "is_absolute n = (length n > 0 \<and> last n = [])"

text \<open>
  The exceptions a method can end with: \<^verbatim>\<open>ValueError\<close>, the three of
  \<^verbatim>\<open>sudns01.clients.exceptions\<close> (\<^verbatim>\<open>ResolverErrorCDName\<close> with the question list its
  message prints), the built-in ones an index or attribute access raises,
  \<^verbatim>\<open>dns.name.NoParent\<close>, and an engine exception that no \<^verbatim>\<open>except\<close> clause catches.
\<close>

datatype error =
    ValueError
  | ResolverError
  | ResolverErrorPermanent
  | ResolverErrorCDName "dns_question list"
  | IndexError
  | AttributeError
  | NoParent
  | EngineError engine_failure

definition parent :: "dns_name \<Rightarrow> error + dns_name" where
  "parent n = (if n = [[]] \<or> n = [] then Inl NoParent else Inr (tl n))"

subsection \<open>The constructor\<close>

definition RESOLVER_TIMEOUT :: nat where
  "RESOLVER_TIMEOUT = 10"

definition CACHE_CLEAN_INTERVAL :: nat where
  "CACHE_CLEAN_INTERVAL = 300"

record ResolverClient =
  resolver :: dns_resolver
  resolver_nocache :: dns_resolver

text \<open>
  \<^verbatim>\<open>__init__\<close>, one assignment per line of the source: \<open>r\<close> is
  \<^verbatim>\<open>self._resolver\<close> and \<open>n\<close> is \<^verbatim>\<open>self._resolver_nocache\<close>. \<open>fresh\<close> is what
  \<^verbatim>\<open>dns.resolver.Resolver(configure=True)\<close> returns; each call makes an object of its
  own. After \<^verbatim>\<open>_resolver_nocache\<close> is made, the last two assignments of the source
  are again to \<^verbatim>\<open>self._resolver\<close>.
\<close>

definition ResolverClient_init :: "dns_resolver \<Rightarrow> ResolverClient" where
  "ResolverClient_init fresh =
    (let r = fresh;
         r = r\<lparr>cache := Some CACHE_CLEAN_INTERVAL\<rparr>;
         r = r\<lparr>retry_servfail := True\<rparr>;
         r = r\<lparr>lifetime := RESOLVER_TIMEOUT\<rparr>;
         n = fresh;
         r = r\<lparr>retry_servfail := True\<rparr>;
         r = r\<lparr>lifetime := RESOLVER_TIMEOUT\<rparr>
     in \<lparr>resolver = r, resolver_nocache = n\<rparr>)"

text \<open>
  The attributes of a resolver that dnspython's constructor leaves: no cache, no
  retry on SERVFAIL, a lifetime of 5 seconds.
\<close>

definition dnspython_fresh :: dns_resolver where
  "dnspython_fresh = \<lparr>cache = None, retry_servfail = False, lifetime = 5\<rparr>"

subsection \<open>\<^verbatim>\<open>_check_has_cdname\<close>\<close>

definition is_cdname :: "dns_rrset \<Rightarrow> bool" where
  "is_cdname response_answer = (rdtype response_answer = CNAME \<or> rdtype response_answer = DNAME)"

text \<open>The \<^verbatim>\<open>for\<close> loop over the Answer section, with its counter.\<close>

fun count_redirects :: "dns_rrset list \<Rightarrow> nat \<Rightarrow> nat" where
  "count_redirects [] redirects_found = redirects_found"
| "count_redirects (response_answer # rest) redirects_found =
     count_redirects rest
       (if is_cdname response_answer then redirects_found + 1 else redirects_found)"

definition check_has_cdname :: "dns_answer \<Rightarrow> bool \<Rightarrow> error + bool" where
  "check_has_cdname ans raise_on_cdname =
    (let redirects_found =
           (if length (answer (response ans)) > 0
            then count_redirects (answer (response ans)) 0 else 0)
     in if redirects_found > 0
        then (if raise_on_cdname
              then Inl (ResolverErrorCDName (question (response ans)))
              else Inr True)
        else Inr False)"

subsection \<open>\<^verbatim>\<open>get_ip\<close>\<close>

text \<open>\<^verbatim>\<open>self._resolver if cached is True else self._resolver_nocache\<close>\<close>

definition pick_resolver :: "ResolverClient \<Rightarrow> bool \<Rightarrow> dns_resolver" where
  "pick_resolver self cached = (if cached then resolver self else resolver_nocache self)"

text \<open>
  \<^verbatim>\<open>HostAnswers.addresses()\<close> of dnspython, which line 138 calls without argument, that
  is for both families: it yields the addresses of the AAAA answer and then those of
  the A answer, each in the order of its rrset. This call makes the one sequence out
  of the two answers.
\<close>

definition addresses :: "host_answers \<Rightarrow> string list" where
  "addresses answers = v6 answers @ v4 answers"

definition get_ip :: "engine \<Rightarrow> ResolverClient \<Rightarrow> query \<Rightarrow> bool \<Rightarrow> bool \<Rightarrow> bool \<Rightarrow> error + string list" where
  "get_ip e self query cached ipv6 search =
    (let r = pick_resolver self cached;
         family = (if ipv6 then AF_UNSPEC else AF_INET)
     in case resolve_name e r query family search of
          Inr answers \<Rightarrow> Inr (addresses answers)
        | Inl NXDOMAIN \<Rightarrow> Inr []
        | Inl NoAnswer \<Rightarrow> Inr []
        | Inl NoNameservers \<Rightarrow> Inl ResolverError
        | Inl LifetimeTimeout \<Rightarrow> Inl ResolverError
        | Inl YXDOMAIN \<Rightarrow> Inl ResolverErrorPermanent)"

subsection \<open>\<^verbatim>\<open>get_txt\<close>\<close>

text \<open>
  An entry of the result: a \<^verbatim>\<open>bytes\<close> object (\<open>Single\<close>) or a tuple of them
  (\<open>Multi\<close>).
\<close>

datatype txt_entry = Single string | Multi "string list"

fun strings :: "rdata \<Rightarrow> error + string list" where
  "strings (TXT_rdata ss) = Inr ss"
| "strings (Target_rdata _) = Inl AttributeError"
| "strings (Opaque_rdata _) = Inl AttributeError"

text \<open>\<^verbatim>\<open>list(map(lambda x: x.strings, reply.rrset))\<close>\<close>

fun text_tuples :: "rdata list \<Rightarrow> error + string list list" where
  "text_tuples [] = Inr []"
| "text_tuples (x # xs) =
     (case strings x of
        Inl err \<Rightarrow> Inl err
      | Inr ss \<Rightarrow> (case text_tuples xs of Inl err \<Rightarrow> Inl err | Inr rest \<Rightarrow> Inr (ss # rest)))"

text \<open>\<^verbatim>\<open>entries if len(entries) > 1 else entries[0]\<close>\<close>

definition collapse :: "string list \<Rightarrow> error + txt_entry" where
  "collapse entries =
    (if length entries > 1 then Inr (Multi entries)
     else (case entries of [] \<Rightarrow> Inl IndexError | s # _ \<Rightarrow> Inr (Single s)))"

text \<open>The generator over \<^verbatim>\<open>text_tuples\<close>, made a list: the first raise ends it.\<close>

fun collapse_all :: "string list list \<Rightarrow> error + txt_entry list" where
  "collapse_all [] = Inr []"
| "collapse_all (entries # rest) =
     (case collapse entries of
        Inl err \<Rightarrow> Inl err
      | Inr v \<Rightarrow> (case collapse_all rest of Inl err \<Rightarrow> Inl err | Inr vs \<Rightarrow> Inr (v # vs)))"

definition get_txt :: "engine \<Rightarrow> ResolverClient \<Rightarrow> query \<Rightarrow> bool \<Rightarrow> bool \<Rightarrow> bool \<Rightarrow> error + txt_entry list" where
  "get_txt e self query cached search raise_on_cdname =
    (let r = pick_resolver self cached
     in case resolve e r query TXT search False of
          Inl NXDOMAIN \<Rightarrow> Inr []
        | Inl NoNameservers \<Rightarrow> Inl ResolverError
        | Inl LifetimeTimeout \<Rightarrow> Inl ResolverError
        | Inl YXDOMAIN \<Rightarrow> Inl ResolverErrorPermanent
        | Inl NoAnswer \<Rightarrow> Inl (EngineError NoAnswer)
        | Inr reply \<Rightarrow>
            (case check_has_cdname reply raise_on_cdname of
               Inl err \<Rightarrow> Inl err
             | Inr _ \<Rightarrow>
                 (case rrset reply of
                    None \<Rightarrow> Inr []
                  | Some rs \<Rightarrow>
                      (case text_tuples (rdata0 rs # rdatas rs) of
                         Inl err \<Rightarrow> Inl err
                       | Inr tt \<Rightarrow> collapse_all tt))))"

text \<open>
  The records \<open>get_txt\<close> decodes: those of the rrset of the answer, in the order the
  rrset has them; none when the answer has no rrset.
\<close>

definition txt_records :: "dns_answer \<Rightarrow> rdata list" where
  "txt_records reply = (case rrset reply of None \<Rightarrow> [] | Some rs \<Rightarrow> rdata0 rs # rdatas rs)"

subsection \<open>\<^verbatim>\<open>get_zone_name\<close>\<close>

text \<open>\<^verbatim>\<open>isinstance(query, dns.name.Name) and not query.is_absolute()\<close>\<close>

fun not_fqdn :: "query \<Rightarrow> bool" where
  "not_fqdn (QName n) = (\<not> is_absolute n)"
| "not_fqdn (QStr s) = False"

text \<open>The \<^verbatim>\<open>for\<close> loop that returns the owner of the first SOA rrset.\<close>

fun first_soa :: "dns_rrset list \<Rightarrow> dns_name option" where
  "first_soa [] = None"
| "first_soa (answer_record # rest) =
     (if rdtype answer_record = SOA then Some (name answer_record) else first_soa rest)"

text \<open>Lines 357 to 371: Answer section, then Authority section, then the raise.\<close>

definition soa_owner :: "dns_answer \<Rightarrow> error + dns_name" where
  "soa_owner ans =
    (case first_soa (answer (response ans)) of
       Some zone \<Rightarrow> Inr zone
     | None \<Rightarrow>
         (if length (authority (response ans)) > 0
          then Inr (name (authority (response ans) ! 0))
          else Inl ResolverErrorPermanent))"

text \<open>
  The method returns its result together with the queries it passed to
  \<^verbatim>\<open>resolver.resolve\<close>, in order. The \<^verbatim>\<open>except ResolverErrorCDName\<close> handler holds
  the only recursive call; reading \<^verbatim>\<open>question[0]\<close> and taking \<^verbatim>\<open>parent()\<close> can
  raise there.
\<close>

function get_zone_name ::
  "engine \<Rightarrow> ResolverClient \<Rightarrow> query \<Rightarrow> bool \<Rightarrow> bool \<Rightarrow> (error + dns_name) \<times> query list" where
  "get_zone_name e self query cached raise_on_cdname =
    (if not_fqdn query then (Inl ValueError, [])
     else
       (case resolve e (pick_resolver self cached) query SOA False False of
          Inl NXDOMAIN \<Rightarrow> (Inl ResolverErrorPermanent, [query])
        | Inl NoNameservers \<Rightarrow> (Inl ResolverError, [query])
        | Inl LifetimeTimeout \<Rightarrow> (Inl ResolverError, [query])
        | Inl YXDOMAIN \<Rightarrow> (Inl ResolverErrorPermanent, [query])
        | Inl NoAnswer \<Rightarrow> (Inl (EngineError NoAnswer), [query])
        | Inr ans \<Rightarrow>
            (case check_has_cdname ans raise_on_cdname of
               Inl (ResolverErrorCDName qs) \<Rightarrow>
                 (if raise_on_cdname then (Inl (ResolverErrorCDName qs), [query])
                  else
                    (case question (response ans) of
                       [] \<Rightarrow> (Inl IndexError, [query])
                     | q0 # _ \<Rightarrow>
                         (case parent (qname q0) of
                            Inl err \<Rightarrow> (Inl err, [query])
                          | Inr parent_query \<Rightarrow>
                              (case get_zone_name e self (QName parent_query) cached raise_on_cdname of
                                 (res, queries) \<Rightarrow> (res, query # queries)))))
             | Inl err \<Rightarrow> (Inl err, [query])
             | Inr _ \<Rightarrow> (soa_owner ans, [query]))))"
  by pat_completeness auto
text \<open>
  The recursive call stands under \<open>check_has_cdname ans raise_on_cdname = Inl _\<close> and
  \<open>\<not> raise_on_cdname\<close>, which never hold together: the method is total because no
  input reaches the call.
\<close>

termination get_zone_name
  apply (relation "{}")
  subgoal by simp
  subgoal by (simp add: check_has_cdname_def Let_def split: if_splits)
  done

declare get_zone_name.simps [simp del]

subsection \<open>The ordering the address lookup is asked for\<close>

text \<open>
  An address in text form is an IPv6 address when it holds a colon.
  \<open>ipv6_before_ipv4\<close> says of a list of addresses that every IPv6 address stands
  before every IPv4 address: the list is its IPv6 addresses followed by its IPv4
  addresses, each group in the order of the list.
\<close>

definition is_ipv6 :: "string \<Rightarrow> bool" where
  "is_ipv6 a = (CHR '':'' \<in> set a)"

definition ipv6_before_ipv4 :: "string list \<Rightarrow> bool" where
  "ipv6_before_ipv4 addrs =
     (addrs = filter is_ipv6 addrs @ filter (\<lambda>a. \<not> is_ipv6 a) addrs)"

subsection \<open>Concrete names, answers and engines\<close>

definition client :: ResolverClient where
  "client = ResolverClient_init dnspython_fresh"

definition www_stanford_edu :: dns_name where
  "www_stanford_edu = [''www'', ''stanford'', ''edu'', '''']"

definition stanford_edu :: dns_name where
  "stanford_edu = [''stanford'', ''edu'', '''']"

definition fastly_net :: dns_name where
  "fastly_net = [''fastly'', ''net'', '''']"

text \<open>
  The docstring's example: \<^verbatim>\<open>www.stanford.edu.\<close> is a CNAME to a name under
  \<^verbatim>\<open>fastly.net.\<close>, so the answer to its SOA query carries the CNAME in the Answer
  section and the SOA of \<^verbatim>\<open>fastly.net.\<close> in the Authority section.
\<close>

definition cname_answer :: dns_answer where
  "cname_answer =
    \<lparr>response =
       \<lparr>question = [\<lparr>qname = www_stanford_edu, qtype = SOA\<rparr>],
        answer =
          [\<lparr>name = www_stanford_edu, rdtype = CNAME,
            rdata0 = Target_rdata [''pantheon-systems'', ''map'', ''fastly'', ''net'', ''''],
            rdatas = []\<rparr>],
        authority =
          [\<lparr>name = fastly_net, rdtype = SOA, rdata0 = Opaque_rdata ''ns1.fastly.net.'',
            rdatas = []\<rparr>]\<rparr>,
     rrset = None\<rparr>"

text \<open>The answer to the SOA query for the zone apex \<^verbatim>\<open>stanford.edu.\<close>\<close>

definition apex_answer :: dns_answer where
  "apex_answer =
    (let soa = \<lparr>name = stanford_edu, rdtype = SOA, rdata0 = Opaque_rdata ''argus.stanford.edu.'',
                rdatas = []\<rparr>
     in \<lparr>response = \<lparr>question = [\<lparr>qname = stanford_edu, qtype = SOA\<rparr>], answer = [soa],
                      authority = []\<rparr>,
         rrset = Some soa\<rparr>)"

text \<open>
  The answer to the SOA query for a host below the apex that is no alias: nothing in
  the Answer section, the zone's SOA in the Authority section.
\<close>

definition host_answer :: dns_answer where
  "host_answer =
    \<lparr>response =
       \<lparr>question = [\<lparr>qname = [''ns'', ''stanford'', ''edu'', [] ], qtype = SOA\<rparr>],
        answer = [],
        authority =
          [\<lparr>name = stanford_edu, rdtype = SOA, rdata0 = Opaque_rdata ''argus.stanford.edu.'',
            rdatas = []\<rparr>]\<rparr>,
     rrset = None\<rparr>"

text \<open>An answer with neither a SOA rrset nor an Authority section.\<close>

definition bare_answer :: dns_answer where
  "bare_answer =
    \<lparr>response = \<lparr>question = [\<lparr>qname = stanford_edu, qtype = SOA\<rparr>], answer = [],
                  authority = []\<rparr>,
     rrset = None\<rparr>"

text \<open>
  A TXT answer of two records: one of a single character-string, one of three.
\<close>

definition txt_rrset :: dns_rrset where
  "txt_rrset =
    \<lparr>name = stanford_edu, rdtype = TXT, rdata0 = TXT_rdata [''hello''],
     rdatas = [TXT_rdata [''a'', ''b'', ''c'']]\<rparr>"

definition txt_answer :: dns_answer where
  "txt_answer =
    \<lparr>response = \<lparr>question = [\<lparr>qname = stanford_edu, qtype = TXT\<rparr>],
                  answer = [txt_rrset], authority = []\<rparr>,
     rrset = Some txt_rrset\<rparr>"

text \<open>A TXT answer whose second record carries no character-string.\<close>

definition empty_txt_rrset :: dns_rrset where
  "empty_txt_rrset =
    \<lparr>name = stanford_edu, rdtype = TXT, rdata0 = TXT_rdata [''hello''],
     rdatas = [TXT_rdata []]\<rparr>"

definition empty_txt_answer :: dns_answer where
  "empty_txt_answer =
    \<lparr>response = \<lparr>question = [\<lparr>qname = stanford_edu, qtype = TXT\<rparr>],
                  answer = [empty_txt_rrset], authority = []\<rparr>,
     rrset = Some empty_txt_rrset\<rparr>"

text \<open>
  The answer to the TXT query for the alias \<^verbatim>\<open>www.stanford.edu.\<close> when the name the
  alias leads to has no TXT record: the CNAME in the Answer section, no TXT rrset.
\<close>

definition alias_txt_answer :: dns_answer where
  "alias_txt_answer =
    \<lparr>response = (response cname_answer)\<lparr>question := [\<lparr>qname = www_stanford_edu, qtype = TXT\<rparr>]\<rparr>,
     rrset = None\<rparr>"

text \<open>
  The answer to the TXT query for the alias \<^verbatim>\<open>www.stanford.edu.\<close> when the name the
  alias leads to has the two TXT records above: the CNAME and the TXT rrset in the
  Answer section, and the TXT rrset as the rrset of the answer.
\<close>

definition alias_txt_found_answer :: dns_answer where
  "alias_txt_found_answer =
    (let txt = txt_rrset\<lparr>name := [''pantheon-systems'', ''map'', ''fastly'', ''net'', '''']\<rparr>
     in \<lparr>response =
           \<lparr>question = [\<lparr>qname = www_stanford_edu, qtype = TXT\<rparr>],
            answer = answer (response cname_answer) @ [txt],
            authority = []\<rparr>,
         rrset = Some txt\<rparr>)"

text \<open>
  Engines. \<open>failing f\<close> raises \<open>f\<close> on every query; \<open>answering ans addrs\<close> gives the
  same answer to every query and the IPv4 addresses \<open>addrs\<close> to every address lookup;
  \<open>dual_stack six four\<close> is a host with the AAAA addresses \<open>six\<close> and the A addresses
  \<open>four\<close>, asked for AAAA only when both families are wanted; \<open>stanford\<close> knows the
  two names above.
\<close>

definition failing :: "engine_failure \<Rightarrow> engine" where
  "failing f = \<lparr>resolve = (\<lambda>r q t s n. Inl f), resolve_name = (\<lambda>r q fam s. Inl f)\<rparr>"

definition answering :: "dns_answer \<Rightarrow> string list \<Rightarrow> engine" where
  "answering ans addrs =
     \<lparr>resolve = (\<lambda>r q t s n. Inr ans),
      resolve_name = (\<lambda>r q fam s. Inr \<lparr>v6 = [], v4 = addrs\<rparr>)\<rparr>"

definition dual_stack :: "string list \<Rightarrow> string list \<Rightarrow> engine" where
  "dual_stack six four =
     \<lparr>resolve = (\<lambda>r q t s n. Inl NXDOMAIN),
      resolve_name = (\<lambda>r q fam s.
         Inr \<lparr>v6 = (if fam = AF_UNSPEC then six else []), v4 = four\<rparr>)\<rparr>"

definition stanford :: engine where
  "stanford =
     \<lparr>resolve = (\<lambda>r q t s n.
         if q = QName www_stanford_edu then Inr cname_answer
         else if q = QName stanford_edu then Inr apex_answer
         else Inl NXDOMAIN),
      resolve_name = (\<lambda>r q fam s. Inl NXDOMAIN)\<rparr>"

section \<open>Properties\<close>

subsection \<open>Auxiliary facts\<close>

text \<open>
  Whatever resolver dnspython makes, the constructor hands it on unchanged as the
  engine without cache, and sets the three attributes of the cached one.
\<close>

lemma init_nocache_is_fresh:
  "resolver_nocache (ResolverClient_init fresh) = fresh"
  by (simp add: ResolverClient_init_def Let_def)

lemma init_cached_configured:
  "resolver (ResolverClient_init fresh) =
     fresh\<lparr>cache := Some CACHE_CLEAN_INTERVAL, retry_servfail := True,
           lifetime := RESOLVER_TIMEOUT\<rparr>"
  by (simp add: ResolverClient_init_def Let_def)

lemma count_redirects_filter:
  "count_redirects rrs k = k + length (filter is_cdname rrs)"
  by (induction rrs arbitrary: k) simp_all

lemma check_has_cdname_eq:
  "check_has_cdname ans raise_on_cdname =
     (if filter is_cdname (answer (response ans)) = [] then Inr False
      else if raise_on_cdname then Inl (ResolverErrorCDName (question (response ans)))
      else Inr True)"
  by (cases "answer (response ans)")
    (simp_all add: check_has_cdname_def count_redirects_filter Let_def)

lemma first_soa_filter:
  "first_soa rrs =
     (case filter (\<lambda>rr. rdtype rr = SOA) rrs of [] \<Rightarrow> None | rr # _ \<Rightarrow> Some (name rr))"
  by (induction rrs) simp_all

text \<open>What the method does once the engine has answered, and once it has failed.\<close>

lemma get_zone_name_answered:
  assumes "\<not> not_fqdn query"
    and "resolve e (pick_resolver self cached) query SOA False False = Inr ans"
  shows "get_zone_name e self query cached raise_on_cdname =
     (if filter is_cdname (answer (response ans)) \<noteq> [] \<and> raise_on_cdname
      then (Inl (ResolverErrorCDName (question (response ans))), [query])
      else (soa_owner ans, [query]))"
  using assms by (subst get_zone_name.simps) (simp add: check_has_cdname_eq)

lemma get_zone_name_failed:
  assumes "\<not> not_fqdn query"
    and "resolve e (pick_resolver self cached) query SOA False False = Inl f"
  shows "get_zone_name e self query cached raise_on_cdname =
     ((case f of NXDOMAIN \<Rightarrow> Inl ResolverErrorPermanent
        | NoAnswer \<Rightarrow> Inl (EngineError NoAnswer)
        | NoNameservers \<Rightarrow> Inl ResolverError
        | LifetimeTimeout \<Rightarrow> Inl ResolverError
        | YXDOMAIN \<Rightarrow> Inl ResolverErrorPermanent), [query])"
  using assms by (subst get_zone_name.simps) (simp split: engine_failure.splits)

text \<open>No call of the method passes more than one query to the engine.\<close>

lemma get_zone_name_one_query:
  "length (snd (get_zone_name e self query cached raise_on_cdname)) \<le> 1"
proof (cases "not_fqdn query")
  case True
  then show ?thesis by (subst get_zone_name.simps) simp
next
  case False
  show ?thesis
  proof (cases "resolve e (pick_resolver self cached) query SOA False False")
    case (Inl f)
    with False show ?thesis by (simp add: get_zone_name_failed)
  next
    case (Inr ans)
    with False show ?thesis by (simp add: get_zone_name_answered)
  qed
qed

subsection \<open>The constructor (C9)\<close>

text \<open>
  C9. After construction both engines should have the timeout of 10 and the cached
  engine a cache with a cleaning interval of 300. The cached engine has both. The
  engine without cache is the resolver as dnspython made it: lines 87 and 88 assign
  \<^verbatim>\<open>retry_servfail\<close> and \<^verbatim>\<open>lifetime\<close> to \<^verbatim>\<open>self._resolver\<close> a second time, so
  \<^verbatim>\<open>self._resolver_nocache\<close> keeps dnspython's lifetime of 5, which is not
  \<open>RESOLVER_TIMEOUT\<close>.
\<close>

theorem init_leaves_nocache_untouched:
  "lifetime (resolver (ResolverClient_init dnspython_fresh)) = 10
   \<and> cache (resolver (ResolverClient_init dnspython_fresh)) = Some 300
   \<and> resolver_nocache (ResolverClient_init dnspython_fresh) = dnspython_fresh
   \<and> lifetime (resolver_nocache (ResolverClient_init dnspython_fresh)) = 5
   \<and> lifetime (resolver_nocache (ResolverClient_init dnspython_fresh)) \<noteq> RESOLVER_TIMEOUT"
  by (simp add: ResolverClient_init_def dnspython_fresh_def RESOLVER_TIMEOUT_def
      CACHE_CLEAN_INTERVAL_def Let_def)

subsection \<open>The redirect check (C2)\<close>

text \<open>
  C2. The check counts the CNAME and DNAME rrsets of the Answer section. With none it
  returns \<open>False\<close>; with one or more it raises \<open>ResolverErrorCDName\<close>, carrying the
  question of the response, when \<open>raise_on_redirect\<close> holds, and returns \<open>True\<close>
  otherwise. Hence \<open>get_zone_name\<close> with \<open>raise_on_cdname = True\<close>, on a query that
  passes the check of line 305 and whose answer holds a redirect, raises that
  exception after the one query.
\<close>

theorem check_has_cdname_redirects:
  "(length (filter is_cdname (answer (response ans))) = 0 \<longrightarrow>
      check_has_cdname ans raise_on_redirect = Inr False)
   \<and> (length (filter is_cdname (answer (response ans))) \<ge> 1 \<and> raise_on_redirect \<longrightarrow>
      check_has_cdname ans raise_on_redirect
        = Inl (ResolverErrorCDName (question (response ans))))
   \<and> (length (filter is_cdname (answer (response ans))) \<ge> 1 \<and> \<not> raise_on_redirect \<longrightarrow>
      check_has_cdname ans raise_on_redirect = Inr True)
   \<and> (length (filter is_cdname (answer (response ans))) \<ge> 1 \<and> \<not> not_fqdn query
        \<and> resolve e (pick_resolver self cached) query SOA False False = Inr ans \<longrightarrow>
      get_zone_name e self query cached True
        = (Inl (ResolverErrorCDName (question (response ans))), [query]))"
  by (auto simp add: check_has_cdname_eq get_zone_name_answered)

theorem check_has_cdname_redirects_witness:
  "check_has_cdname apex_answer True = Inr False
   \<and> check_has_cdname cname_answer True
       = Inl (ResolverErrorCDName [\<lparr>qname = www_stanford_edu, qtype = SOA\<rparr>])
   \<and> check_has_cdname cname_answer False = Inr True
   \<and> get_zone_name stanford client (QName www_stanford_edu) True True
       = (Inl (ResolverErrorCDName [\<lparr>qname = www_stanford_edu, qtype = SOA\<rparr>]),
          [QName www_stanford_edu])"
  using check_has_cdname_redirects [of apex_answer True "QName stanford_edu" stanford client True]
    check_has_cdname_redirects [of cname_answer True "QName www_stanford_edu" stanford client True]
    check_has_cdname_redirects [of cname_answer False "QName www_stanford_edu" stanford client True]
  by (simp add: stanford_def stanford_edu_def www_stanford_edu_def
      apex_answer_def cname_answer_def is_absolute_def is_cdname_def Let_def)

subsection \<open>The zone lookup (C1, C3, C4, C5)\<close>

text \<open>
  C1. With \<open>raise_on_cdname = False\<close> and a redirect in the answer the method should
  query the parent of the queried name and return that call's result. It does not:
  \<open>check_has_cdname\<close> raises nothing when \<open>raise_on_cdname\<close> is \<open>False\<close>, so the
  handler that holds the retry is never entered, and the method goes on to read the
  SOA owner from the redirected answer. For \<^verbatim>\<open>www.stanford.edu.\<close> it returns
  \<^verbatim>\<open>fastly.net.\<close> after one query, where the parent \<^verbatim>\<open>stanford.edu.\<close>, queried, gives
  \<^verbatim>\<open>stanford.edu.\<close>
\<close>

theorem get_zone_name_never_retries:
  "get_zone_name stanford client (QName www_stanford_edu) True False
     = (Inr fastly_net, [QName www_stanford_edu])
   \<and> parent www_stanford_edu = Inr stanford_edu
   \<and> get_zone_name stanford client (QName stanford_edu) True False
     = (Inr stanford_edu, [QName stanford_edu])"
  by (simp add: get_zone_name_answered stanford_def stanford_edu_def www_stanford_edu_def
      fastly_net_def parent_def soa_owner_def
      apex_answer_def cname_answer_def is_absolute_def is_cdname_def Let_def)

text \<open>
  C3. For a query that passes the check of line 305 (every absolute name does) and an
  answer without redirect, the method returns the owner of the first SOA rrset of the
  Answer section; when there is none, the owner of the first rrset of the Authority
  section; when that section is empty, it raises \<open>ResolverErrorPermanent\<close>. One query
  is issued.
\<close>

theorem get_zone_name_no_redirect:
  assumes "\<not> not_fqdn query"
    and "resolve e (pick_resolver self cached) query SOA False False = Inr ans"
    and "filter is_cdname (answer (response ans)) = []"
  shows "get_zone_name e self query cached raise_on_cdname =
     ((case filter (\<lambda>rr. rdtype rr = SOA) (answer (response ans)) of
         rr # _ \<Rightarrow> Inr (name rr)
       | [] \<Rightarrow>
          (case authority (response ans) of
             rr # _ \<Rightarrow> Inr (name rr)
           | [] \<Rightarrow> Inl ResolverErrorPermanent)),
      [query])"
  using assms
  by (simp add: get_zone_name_answered soa_owner_def first_soa_filter
      split: list.splits)

theorem get_zone_name_no_redirect_witness:
  "get_zone_name stanford client (QName stanford_edu) True True
      = (Inr stanford_edu, [QName stanford_edu])
   \<and> get_zone_name (answering host_answer []) client (QName [''ns'', ''stanford'', ''edu'', [] ])
        False True
      = (Inr stanford_edu, [QName [''ns'', ''stanford'', ''edu'', [] ]])
   \<and> get_zone_name (answering bare_answer []) client (QName stanford_edu) True True
      = (Inl ResolverErrorPermanent, [QName stanford_edu])"
  using get_zone_name_no_redirect [of "QName stanford_edu" stanford client True apex_answer True]
    get_zone_name_no_redirect [of "QName [''ns'', ''stanford'', ''edu'', [] ]"
      "answering host_answer []" client False host_answer True]
    get_zone_name_no_redirect [of "QName stanford_edu" "answering bare_answer []" client True
      bare_answer True]
  by (simp add: stanford_def answering_def stanford_edu_def www_stanford_edu_def
      apex_answer_def bare_answer_def host_answer_def is_absolute_def is_cdname_def Let_def)

text \<open>
  C4, as the code has it. A query given as a \<^verbatim>\<open>dns.name.Name\<close> that is not absolute
  makes the method raise \<open>ValueError\<close> before any query is issued, whatever \<open>cached\<close>
  and \<open>raise_on_cdname\<close> are.
\<close>

theorem get_zone_name_relative_name:
  assumes "\<not> is_absolute n"
  shows "get_zone_name e self (QName n) cached raise_on_cdname = (Inl ValueError, [])"
  using assms by (subst get_zone_name.simps) simp

theorem get_zone_name_relative_name_witness:
  "\<not> is_absolute [''www''] \<and>
   get_zone_name stanford client (QName [''www'']) False True = (Inl ValueError, [])"
  using get_zone_name_relative_name [of "[''www'']" stanford client False True]
  by (simp add: is_absolute_def)

text \<open>
  C4, as the claim has it, fails for a name given as a string: the check of line 305
  asks \<^verbatim>\<open>isinstance(query, dns.name.Name)\<close> first, so the relative name
  \<^verbatim>\<open>"example"\<close> (no final dot) is passed to the engine, and the method ends with
  what the engine's answer leads to, not with \<open>ValueError\<close>.
\<close>

theorem get_zone_name_relative_text:
  "get_zone_name (failing NXDOMAIN) client (QStr ''example'') True True
     = (Inl ResolverErrorPermanent, [QStr ''example''])
   \<and> get_zone_name (failing NXDOMAIN) client (QStr ''example'') True True
     \<noteq> (Inl ValueError, [])"
  by (subst get_zone_name.simps, subst get_zone_name.simps) (simp add: failing_def)

text \<open>
  C5. For a query that passes the check of line 305 (every absolute name does), a
  failure of the engine on the SOA query is mapped so: \<open>NXDOMAIN\<close> to
  \<open>ResolverErrorPermanent\<close>, \<open>NoNameservers\<close> and \<open>LifetimeTimeout\<close> to \<open>ResolverError\<close>,
  \<open>YXDOMAIN\<close> to \<open>ResolverErrorPermanent\<close>.
\<close>

theorem get_zone_name_engine_failures:
  assumes "\<not> not_fqdn query"
    and "resolve e (pick_resolver self cached) query SOA False False = Inl f"
  shows "(f = NXDOMAIN \<longrightarrow>
            get_zone_name e self query cached raise_on_cdname = (Inl ResolverErrorPermanent, [query]))
       \<and> (f = NoNameservers \<or> f = LifetimeTimeout \<longrightarrow>
            get_zone_name e self query cached raise_on_cdname = (Inl ResolverError, [query]))
       \<and> (f = YXDOMAIN \<longrightarrow>
            get_zone_name e self query cached raise_on_cdname = (Inl ResolverErrorPermanent, [query]))"
  using assms by (auto simp add: get_zone_name_failed)

theorem get_zone_name_engine_failures_witness:
  "get_zone_name (failing NXDOMAIN) client (QName stanford_edu) True True
      = (Inl ResolverErrorPermanent, [QName stanford_edu])
   \<and> get_zone_name (failing NoNameservers) client (QName stanford_edu) True True
      = (Inl ResolverError, [QName stanford_edu])
   \<and> get_zone_name (failing LifetimeTimeout) client (QName stanford_edu) False False
      = (Inl ResolverError, [QName stanford_edu])
   \<and> get_zone_name (failing YXDOMAIN) client (QName stanford_edu) True False
      = (Inl ResolverErrorPermanent, [QName stanford_edu])"
  using get_zone_name_engine_failures [of "QName stanford_edu" "failing NXDOMAIN" client True NXDOMAIN True]
    get_zone_name_engine_failures [of "QName stanford_edu" "failing NoNameservers" client True NoNameservers True]
    get_zone_name_engine_failures [of "QName stanford_edu" "failing LifetimeTimeout" client False LifetimeTimeout False]
    get_zone_name_engine_failures [of "QName stanford_edu" "failing YXDOMAIN" client True YXDOMAIN False]
  by (simp add: failing_def stanford_edu_def is_absolute_def)

subsection \<open>The TXT lookup (C6, C10)\<close>

lemma text_tuples_TXT: "text_tuples (map TXT_rdata tt) = Inr tt"
  by (induction tt) simp_all

lemma collapse_all_length:
  "collapse_all tt = Inr ys \<Longrightarrow> length ys = length tt"
  by (induction tt arbitrary: ys) (auto split: sum.splits)

lemma collapse_all_nth:
  "collapse_all tt = Inr ys \<Longrightarrow> i < length tt \<Longrightarrow> collapse (tt ! i) = Inr (ys ! i)"
proof (induction tt arbitrary: ys i)
  case Nil
  then show ?case by simp
next
  case (Cons entries rest)
  then show ?case by (cases i) (auto split: sum.splits)
qed

lemma collapse_all_returns:
  "(\<exists>ys. collapse_all tt = Inr ys) \<longleftrightarrow> (\<forall>entries \<in> set tt. entries \<noteq> [])"
  by (induction tt) (auto simp add: collapse_def split: sum.splits list.splits)

lemma collapse_all_raises:
  "collapse_all tt = Inl err \<Longrightarrow> err = IndexError"
  by (induction tt) (auto simp add: collapse_def split: sum.splits list.splits if_splits)

text \<open>
  When the engine answers, the redirect check raises nothing and the records of the
  answer are TXT records that carry the tuples \<open>tt\<close>, the method returns what its last
  expression makes of \<open>tt\<close>.
\<close>

lemma get_txt_decoding:
  assumes "resolve e (pick_resolver self cached) query TXT search False = Inr reply"
    and "check_has_cdname reply raise_on_cdname = Inr b"
    and "txt_records reply = map TXT_rdata tt"
  shows "get_txt e self query cached search raise_on_cdname = collapse_all tt"
proof (cases "rrset reply")
  case None
  with assms(3) have "tt = []" by (simp add: txt_records_def)
  with assms(1,2) None show ?thesis by (simp add: get_txt_def)
next
  case (Some rs)
  with assms(3) have "rdata0 rs # rdatas rs = map TXT_rdata tt" by (simp add: txt_records_def)
  with assms(1,2) Some show ?thesis by (simp add: get_txt_def text_tuples_TXT)
qed

lemma txt_answer_premises:
  "resolve (answering txt_answer []) (pick_resolver client True) (QName stanford_edu) TXT True False
     = Inr txt_answer"
  "check_has_cdname txt_answer True = Inr False"
  "txt_records txt_answer = map TXT_rdata [[''hello''], [''a'', ''b'', ''c'']]"
  by (simp_all add: answering_def txt_answer_def txt_rrset_def txt_records_def
      check_has_cdname_eq is_cdname_def)

lemma empty_txt_answer_premises:
  "resolve (answering empty_txt_answer []) (pick_resolver client True) (QName stanford_edu) TXT
     True False = Inr empty_txt_answer"
  "check_has_cdname empty_txt_answer True = Inr False"
  "txt_records empty_txt_answer = map TXT_rdata [[''hello''], []]"
  by (simp_all add: answering_def empty_txt_answer_def empty_txt_rrset_def txt_records_def
      check_has_cdname_eq is_cdname_def)

lemma alias_txt_found_answer_premises:
  "resolve (answering alias_txt_found_answer []) (pick_resolver client True)
     (QName www_stanford_edu) TXT True False = Inr alias_txt_found_answer"
  "txt_records alias_txt_found_answer = map TXT_rdata [[''hello''], [''a'', ''b'', ''c'']]"
  by (simp_all add: answering_def alias_txt_found_answer_def txt_rrset_def txt_records_def
      Let_def)

text \<open>
  C6, as the code has it. Let the answer to the TXT query hold the TXT records with the
  tuples of character-strings \<open>tt\<close>, in the server's order, each with at least one
  string (as a TXT record has), and let the redirect check, which \<open>get_txt\<close> runs
  before it decodes, not raise: the Answer section holds no CNAME or DNAME, or
  \<open>raise_on_cdname\<close> is \<open>False\<close>. Then \<open>get_txt\<close> returns one entry per record, in that
  order: \<open>Single s\<close> for a record of exactly one string \<open>s\<close>, \<open>Multi\<close> of the strings,
  in their order, for a record of more than one; an entry is a \<open>Multi\<close> only for a
  record of more than one string.
\<close>

theorem get_txt_decodes_each_record:
  assumes "resolve e (pick_resolver self cached) query TXT search False = Inr reply"
    and "filter is_cdname (answer (response reply)) = [] \<or> \<not> raise_on_cdname"
    and "txt_records reply = map TXT_rdata tt"
    and "\<forall>entries \<in> set tt. entries \<noteq> []"
  shows "\<exists>ys. get_txt e self query cached search raise_on_cdname = Inr ys
           \<and> length ys = length tt
           \<and> (\<forall>i < length tt.
                 (\<forall>s. tt ! i = [s] \<longrightarrow> ys ! i = Single s)
               \<and> (length (tt ! i) > 1 \<longrightarrow> ys ! i = Multi (tt ! i))
               \<and> (\<forall>m. ys ! i = Multi m \<longrightarrow> length (tt ! i) > 1 \<and> m = tt ! i))"
proof -
  from assms(2) have "\<exists>b. check_has_cdname reply raise_on_cdname = Inr b"
    by (auto simp add: check_has_cdname_eq)
  then obtain b where quiet: "check_has_cdname reply raise_on_cdname = Inr b" ..
  from assms(4) obtain ys where ys: "collapse_all tt = Inr ys"
    using collapse_all_returns by blast
  have run: "get_txt e self query cached search raise_on_cdname = Inr ys"
    using assms(1) quiet assms(3) ys by (simp add: get_txt_decoding)
  have len: "length ys = length tt"
    using ys by (rule collapse_all_length)
  have each: "(\<forall>s. tt ! i = [s] \<longrightarrow> ys ! i = Single s)
      \<and> (length (tt ! i) > 1 \<longrightarrow> ys ! i = Multi (tt ! i))
      \<and> (\<forall>m. ys ! i = Multi m \<longrightarrow> length (tt ! i) > 1 \<and> m = tt ! i)"
    if "i < length tt" for i
  proof -
    have "collapse (tt ! i) = Inr (ys ! i)"
      using ys that by (rule collapse_all_nth)
    then show ?thesis
      by (auto simp add: collapse_def split: if_splits list.splits)
  qed
  from run len each show ?thesis by blast
qed

theorem get_txt_decodes_each_record_witness:
  "(\<exists>ys. get_txt (answering txt_answer []) client (QName stanford_edu) True True True = Inr ys
      \<and> length ys = 2 \<and> ys ! 0 = Single ''hello'' \<and> ys ! 1 = Multi [''a'', ''b'', ''c''])
   \<and> (\<exists>ys. get_txt (answering alias_txt_found_answer []) client (QName www_stanford_edu)
             True True False = Inr ys
      \<and> length ys = 2 \<and> ys ! 0 = Single ''hello'' \<and> ys ! 1 = Multi [''a'', ''b'', ''c''])"
proof -
  have nonempty: "\<forall>entries \<in> set [[''hello''], [''a'', ''b'', ''c'']]. entries \<noteq> []"
    by simp
  have no_redirect: "filter is_cdname (answer (response txt_answer)) = [] \<or> \<not> True"
    by (simp add: txt_answer_def txt_rrset_def is_cdname_def)
  have flag_off: "filter is_cdname (answer (response alias_txt_found_answer)) = [] \<or> \<not> False"
    by simp
  from get_txt_decodes_each_record
    [OF txt_answer_premises(1) no_redirect txt_answer_premises(3) nonempty]
  obtain ys where
    run: "get_txt (answering txt_answer []) client (QName stanford_edu) True True True = Inr ys"
    and len: "length ys = length [[''hello''], [''a'', ''b'', ''c'']]"
    and each: "\<And>i. i < length [[''hello''], [''a'', ''b'', ''c'']] \<Longrightarrow>
                 (\<forall>s. [[''hello''], [''a'', ''b'', ''c'']] ! i = [s] \<longrightarrow> ys ! i = Single s)
               \<and> (length ([[''hello''], [''a'', ''b'', ''c'']] ! i) > 1 \<longrightarrow>
                    ys ! i = Multi ([[''hello''], [''a'', ''b'', ''c'']] ! i))"
    by blast
  from each [of 0] have "ys ! 0 = Single ''hello''" by simp
  moreover from each [of 1] have "ys ! 1 = Multi [''a'', ''b'', ''c'']" by simp
  moreover from len have "length ys = 2" by simp
  ultimately have first: "\<exists>ys. get_txt (answering txt_answer []) client (QName stanford_edu)
      True True True = Inr ys
      \<and> length ys = 2 \<and> ys ! 0 = Single ''hello'' \<and> ys ! 1 = Multi [''a'', ''b'', ''c'']"
    using run by blast
  from get_txt_decodes_each_record
    [OF alias_txt_found_answer_premises(1) flag_off alias_txt_found_answer_premises(2) nonempty]
  obtain zs where
    run: "get_txt (answering alias_txt_found_answer []) client (QName www_stanford_edu)
            True True False = Inr zs"
    and len: "length zs = length [[''hello''], [''a'', ''b'', ''c'']]"
    and each: "\<And>i. i < length [[''hello''], [''a'', ''b'', ''c'']] \<Longrightarrow>
                 (\<forall>s. [[''hello''], [''a'', ''b'', ''c'']] ! i = [s] \<longrightarrow> zs ! i = Single s)
               \<and> (length ([[''hello''], [''a'', ''b'', ''c'']] ! i) > 1 \<longrightarrow>
                    zs ! i = Multi ([[''hello''], [''a'', ''b'', ''c'']] ! i))"
    by blast
  from each [of 0] have "zs ! 0 = Single ''hello''" by simp
  moreover from each [of 1] have "zs ! 1 = Multi [''a'', ''b'', ''c'']" by simp
  moreover from len have "length zs = 2" by simp
  ultimately have "\<exists>ys. get_txt (answering alias_txt_found_answer []) client
      (QName www_stanford_edu) True True False = Inr ys
      \<and> length ys = 2 \<and> ys ! 0 = Single ''hello'' \<and> ys ! 1 = Multi [''a'', ''b'', ''c'']"
    using run by blast
  with first show ?thesis by blast
qed

text \<open>
  C6, as the claim has it, fails for a TXT answer reached through an alias: the
  answer to the TXT query for \<^verbatim>\<open>www.stanford.edu.\<close> holds the CNAME and the two TXT
  records, and with \<open>raise_on_cdname = True\<close> (the default) \<open>get_txt\<close> raises
  \<open>ResolverErrorCDName\<close> and decodes no record.
\<close>

theorem get_txt_alias_not_decoded:
  "txt_records alias_txt_found_answer = map TXT_rdata [[''hello''], [''a'', ''b'', ''c'']]
   \<and> get_txt (answering alias_txt_found_answer []) client (QName www_stanford_edu) True True True
     = Inl (ResolverErrorCDName [\<lparr>qname = www_stanford_edu, qtype = TXT\<rparr>])"
  by (simp add: get_txt_def answering_def alias_txt_found_answer_def cname_answer_def
      txt_rrset_def txt_records_def check_has_cdname_eq is_cdname_def Let_def)

text \<open>
  C10. The last expression of \<open>get_txt\<close> reads \<^verbatim>\<open>entries[0]\<close> of every record that has
  not more than one character-string. When every TXT record of the answer carries at
  least one character-string the read is in bounds and the method returns a value;
  when some record carries none, the method raises \<open>IndexError\<close>. (The engine has
  answered, the redirect check has raised nothing, and \<open>tt\<close> are the tuples of the
  records.)
\<close>

theorem get_txt_first_string_index:
  assumes "resolve e (pick_resolver self cached) query TXT search False = Inr reply"
    and "check_has_cdname reply raise_on_cdname = Inr b"
    and "txt_records reply = map TXT_rdata tt"
  shows "((\<forall>entries \<in> set tt. length entries \<ge> 1) \<longrightarrow>
            (\<exists>ys. get_txt e self query cached search raise_on_cdname = Inr ys))
       \<and> ((\<exists>entries \<in> set tt. length entries = 0) \<longrightarrow>
            get_txt e self query cached search raise_on_cdname = Inl IndexError)"
proof -
  have run: "get_txt e self query cached search raise_on_cdname = collapse_all tt"
    using assms by (rule get_txt_decoding)
  have "\<exists>ys. collapse_all tt = Inr ys" if "\<forall>entries \<in> set tt. length entries \<ge> 1"
  proof -
    from that have "\<forall>entries \<in> set tt. entries \<noteq> []" by auto
    then show ?thesis using collapse_all_returns by blast
  qed
  moreover have "collapse_all tt = Inl IndexError" if "\<exists>entries \<in> set tt. length entries = 0"
  proof -
    from that have "\<not> (\<forall>entries \<in> set tt. entries \<noteq> [])" by auto
    then have "\<not> (\<exists>ys. collapse_all tt = Inr ys)" using collapse_all_returns by blast
    then obtain err where "collapse_all tt = Inl err" by (cases "collapse_all tt") auto
    then show ?thesis using collapse_all_raises by blast
  qed
  ultimately show ?thesis using run by simp
qed

theorem get_txt_first_string_index_witness:
  "(\<exists>ys. get_txt (answering txt_answer []) client (QName stanford_edu) True True True = Inr ys)
   \<and> get_txt (answering empty_txt_answer []) client (QName stanford_edu) True True True
       = Inl IndexError"
  using get_txt_first_string_index [OF txt_answer_premises]
    get_txt_first_string_index [OF empty_txt_answer_premises]
  by simp

subsection \<open>The address lookup (C7)\<close>

text \<open>
  C7. With \<open>ipv6 = True\<close> the method asks for both families. The engine gives the
  answer to the AAAA query and the answer to the A query apart; the one sequence is
  made by the call of \<^verbatim>\<open>addresses()\<close> in line 138, and the method returns it as it
  is. So the result is the addresses of the AAAA records, in the server's order,
  followed by the addresses of the A records, in the server's order: every IPv6
  address stands before every IPv4 address, and each family keeps its order.
\<close>

theorem get_ip_ipv6_first:
  assumes "resolve_name e (pick_resolver self cached) query AF_UNSPEC search = Inr answers"
  shows "get_ip e self query cached True search = Inr (v6 answers @ v4 answers)
       \<and> ((\<forall>x \<in> set (v6 answers). is_ipv6 x) \<and> (\<forall>x \<in> set (v4 answers). \<not> is_ipv6 x) \<longrightarrow>
            (\<exists>result. get_ip e self query cached True search = Inr result
               \<and> ipv6_before_ipv4 result
               \<and> filter is_ipv6 result = v6 answers
               \<and> filter (\<lambda>x. \<not> is_ipv6 x) result = v4 answers))"
  using assms by (auto simp add: get_ip_def addresses_def ipv6_before_ipv4_def)

theorem get_ip_ipv6_first_witness:
  "get_ip (dual_stack [''::1'', ''::2''] [''1.1.1.1'']) client (QStr ''localhost'') True True True
     = Inr [''::1'', ''::2'', ''1.1.1.1'']
   \<and> ipv6_before_ipv4 [''::1'', ''::2'', ''1.1.1.1'']"
proof -
  have asked: "resolve_name (dual_stack [''::1'', ''::2''] [''1.1.1.1''])
          (pick_resolver client True) (QStr ''localhost'') AF_UNSPEC True
        = Inr \<lparr>v6 = [''::1'', ''::2''], v4 = [''1.1.1.1'']\<rparr>"
    by (simp add: dual_stack_def)
  have families: "(\<forall>x \<in> set (v6 \<lparr>v6 = [''::1'', ''::2''], v4 = [''1.1.1.1'']\<rparr>). is_ipv6 x)
      \<and> (\<forall>x \<in> set (v4 \<lparr>v6 = [''::1'', ''::2''], v4 = [''1.1.1.1'']\<rparr>). \<not> is_ipv6 x)"
    by (simp add: is_ipv6_def)
  note at_host = get_ip_ipv6_first [OF asked]
  from at_host have run: "get_ip (dual_stack [''::1'', ''::2''] [''1.1.1.1'']) client
        (QStr ''localhost'') True True True = Inr [''::1'', ''::2'', ''1.1.1.1'']"
    by simp
  from at_host families obtain result where
    "get_ip (dual_stack [''::1'', ''::2''] [''1.1.1.1'']) client (QStr ''localhost'')
        True True True = Inr result"
    and "ipv6_before_ipv4 result"
    by blast
  with run have "ipv6_before_ipv4 [''::1'', ''::2'', ''1.1.1.1'']" by simp
  with run show ?thesis by simp
qed

subsection \<open>Lookups that find no record (C8)\<close>

text \<open>
  C8, as the code has it. \<open>get_ip\<close> returns the empty list when the engine raises
  \<open>NXDOMAIN\<close> or \<open>NoAnswer\<close>. \<open>get_txt\<close> returns the empty list when the engine raises
  \<open>NXDOMAIN\<close>, and when the engine's answer has no TXT rrset (so the engine reports
  that there is no answer, the query being made with \<^verbatim>\<open>raise_on_no_answer=False\<close>)
  and the redirect check raises nothing: the Answer section holds no CNAME or DNAME,
  or \<open>raise_on_cdname\<close> is \<open>False\<close>. Both raise \<open>ResolverError\<close> on \<open>NoNameservers\<close> and
  \<open>LifetimeTimeout\<close>, and \<open>ResolverErrorPermanent\<close> on \<open>YXDOMAIN\<close>.
\<close>

theorem lookups_without_records:
  "(resolve_name e (pick_resolver self cached) query (if ipv6 then AF_UNSPEC else AF_INET) search
      = Inl f \<longrightarrow>
        (f = NXDOMAIN \<or> f = NoAnswer \<longrightarrow> get_ip e self query cached ipv6 search = Inr [])
      \<and> (f = NoNameservers \<or> f = LifetimeTimeout \<longrightarrow>
           get_ip e self query cached ipv6 search = Inl ResolverError)
      \<and> (f = YXDOMAIN \<longrightarrow> get_ip e self query cached ipv6 search = Inl ResolverErrorPermanent))
   \<and> (resolve e (pick_resolver self cached) query TXT search False = Inl f \<longrightarrow>
        (f = NXDOMAIN \<longrightarrow> get_txt e self query cached search raise_on_cdname = Inr [])
      \<and> (f = NoNameservers \<or> f = LifetimeTimeout \<longrightarrow>
           get_txt e self query cached search raise_on_cdname = Inl ResolverError)
      \<and> (f = YXDOMAIN \<longrightarrow>
           get_txt e self query cached search raise_on_cdname = Inl ResolverErrorPermanent))
   \<and> (resolve e (pick_resolver self cached) query TXT search False = Inr reply
        \<and> rrset reply = None
        \<and> (filter is_cdname (answer (response reply)) = [] \<or> \<not> raise_on_cdname) \<longrightarrow>
        get_txt e self query cached search raise_on_cdname = Inr [])"
  by (auto simp add: get_ip_def get_txt_def check_has_cdname_eq)

theorem lookups_without_records_witness:
  "get_ip (failing NXDOMAIN) client (QStr ''nowhere'') True True True = Inr []
   \<and> get_ip (failing NoAnswer) client (QStr ''nowhere'') True False True = Inr []
   \<and> get_ip (failing NoNameservers) client (QStr ''nowhere'') True True True = Inl ResolverError
   \<and> get_ip (failing LifetimeTimeout) client (QStr ''nowhere'') True True True = Inl ResolverError
   \<and> get_ip (failing YXDOMAIN) client (QStr ''nowhere'') True True True = Inl ResolverErrorPermanent
   \<and> get_txt (failing NXDOMAIN) client (QStr ''nowhere'') True True True = Inr []
   \<and> get_txt (failing NoNameservers) client (QStr ''nowhere'') True True True = Inl ResolverError
   \<and> get_txt (failing LifetimeTimeout) client (QStr ''nowhere'') True True True = Inl ResolverError
   \<and> get_txt (failing YXDOMAIN) client (QStr ''nowhere'') True True True = Inl ResolverErrorPermanent
   \<and> get_txt (answering bare_answer []) client (QStr ''nowhere'') True True True = Inr []
   \<and> get_txt (answering alias_txt_answer []) client (QName www_stanford_edu) True True False = Inr []"
  using
    lookups_without_records [of "failing NXDOMAIN" client True "QStr ''nowhere''" True True
      NXDOMAIN True bare_answer]
    lookups_without_records [of "failing NoAnswer" client True "QStr ''nowhere''" False True
      NoAnswer True bare_answer]
    lookups_without_records [of "failing NoNameservers" client True "QStr ''nowhere''" True True
      NoNameservers True bare_answer]
    lookups_without_records [of "failing LifetimeTimeout" client True "QStr ''nowhere''" True True
      LifetimeTimeout True bare_answer]
    lookups_without_records [of "failing YXDOMAIN" client True "QStr ''nowhere''" True True
      YXDOMAIN True bare_answer]
    lookups_without_records [of "answering bare_answer []" client True "QStr ''nowhere''" True True
      NXDOMAIN True bare_answer]
    lookups_without_records [of "answering alias_txt_answer []" client True
      "QName www_stanford_edu" True True NXDOMAIN False alias_txt_answer]
  by (simp add: failing_def answering_def bare_answer_def alias_txt_answer_def)

text \<open>
  C8, as the claim has it, fails for \<open>get_txt\<close>. No \<^verbatim>\<open>except\<close> clause of \<open>get_txt\<close>
  names \<open>NoAnswer\<close>, so the exception, were it raised, leaves the method. And when
  the engine reports that there is no answer the way it does for this query, by an
  answer without TXT rrset, the redirect check runs first: for the alias
  \<^verbatim>\<open>www.stanford.edu.\<close> and \<open>raise_on_cdname = True\<close> the method raises
  \<open>ResolverErrorCDName\<close>.
\<close>

theorem get_txt_no_answer_fails:
  "get_txt (failing NoAnswer) client (QName www_stanford_edu) True True True
     = Inl (EngineError NoAnswer)
   \<and> rrset alias_txt_answer = None
   \<and> get_txt (answering alias_txt_answer []) client (QName www_stanford_edu) True True True
     = Inl (ResolverErrorCDName [\<lparr>qname = www_stanford_edu, qtype = TXT\<rparr>])"
  by (simp add: get_txt_def failing_def answering_def alias_txt_answer_def cname_answer_def
      check_has_cdname_eq is_cdname_def)

end
